theory Spec2Isabelle
  imports Main "HOL-Library.Word"
begin

section \<open>Time and durations\<close>

text \<open>
  Go's \<open>time.Duration\<close> is a count of nanoseconds; instants of the wall clock are
  modelled as nanoseconds since an arbitrary epoch. The constants below are those of
  package \<open>time\<close> and of \<open>main.go\<close>.
\<close>

type_synonym duration = int
type_synonym instant = int

definition Second :: duration where
  "Second = 1000000000"

definition Minute :: duration where
  "Minute = 60 * Second"

definition failAfter :: duration where
  "failAfter = 5 * Minute"

section \<open>The failure window (\<open>utils.FailBox\<close>)\<close>

text \<open>
  Modelled from the spec: package \<open>internal/utils\<close>, which declares \<open>FailBox\<close>,
  \<open>NewFailBox\<close>, \<open>Success\<close>, \<open>Failure\<close>, \<open>ShouldExit\<close> and \<open>LastSuccess\<close>. The
  methods read the wall clock themselves; here the instant read is an argument.
\<close>

record FailBox =
  created :: instant
  threshold :: duration
  lastSuccess :: "instant option"
  lastFailure :: "instant option"

text \<open>Modelled from the spec: \<open>utils.NewFailBox\<close>, the window with its creation instant.\<close>

definition NewFailBox :: "instant \<Rightarrow> duration \<Rightarrow> FailBox" where
  "NewFailBox now d =
     \<lparr>created = now, threshold = d, lastSuccess = None, lastFailure = None\<rparr>"

text \<open>Modelled from the spec: \<open>FailBox.Success\<close> (recordSuccess), which sets lastSuccess.\<close>

definition Success :: "instant \<Rightarrow> FailBox \<Rightarrow> FailBox" where
  "Success now fb = fb\<lparr>lastSuccess := Some now\<rparr>"

text \<open>Modelled from the spec: \<open>FailBox.Failure\<close> (recordFailure), informational only.\<close>

definition Failure :: "instant \<Rightarrow> FailBox \<Rightarrow> FailBox" where
  "Failure now fb = fb\<lparr>lastFailure := Some now\<rparr>"

text \<open>Modelled from the spec: \<open>FailBox.LastSuccess\<close>, the accessor used by the log lines.\<close>

definition LastSuccess :: "FailBox \<Rightarrow> instant option" where
  "LastSuccess fb = lastSuccess fb"

text \<open>
  Modelled from the spec: \<open>FailBox.ShouldExit\<close> (shouldExit), with the creation instant
  as the fallback of a window that never saw a success.
\<close>

definition ShouldExit :: "instant \<Rightarrow> FailBox \<Rightarrow> bool" where
  "ShouldExit now fb =
     (case lastSuccess fb of
        Some t \<Rightarrow> now - t > threshold fb
      | None \<Rightarrow> now - created fb > threshold fb)"

text \<open>A sequence of calls fed to one window, each with the instant it reads.\<close>

datatype call = RecordSuccess instant | RecordFailure instant

fun apply_call :: "FailBox \<Rightarrow> call \<Rightarrow> FailBox" where
  "apply_call fb (RecordSuccess now) = Success now fb"
| "apply_call fb (RecordFailure now) = Failure now fb"

fun feed :: "FailBox \<Rightarrow> call list \<Rightarrow> FailBox" where
  "feed fb [] = fb"
| "feed fb (c # cs) = feed (apply_call fb c) cs"

text \<open>
  What the spec's sentences speak of: the instant of the last recordSuccess of a
  sequence of calls, read off the sequence itself and not off the window.
\<close>

fun last_success_of :: "call list \<Rightarrow> instant option" where
  "last_success_of [] = None"
| "last_success_of (RecordSuccess now # cs) =
     (case last_success_of cs of None \<Rightarrow> Some now | Some t \<Rightarrow> Some t)"
| "last_success_of (RecordFailure now # cs) = last_success_of cs"

fun is_failure :: "call \<Rightarrow> bool" where
  "is_failure (RecordFailure now) = True"
| "is_failure (RecordSuccess now) = False"

section \<open>The polling loop (\<open>monitorLooper.Go\<close>)\<close>

text \<open>
  A Go \<open>error\<close> is nil or a value with a message; \<open>Retrieve\<close> returns one. The monitors
  themselves are outside this file: what \<open>Retrieve\<close> returns on each call is an input.
\<close>

datatype error = Error string

record monitor =
  Name :: string

record monitorLooper =
  Interval :: duration
  FailBox :: FailBox
  Chk :: monitor

text \<open>The lines \<open>Go\<close> writes to the log.\<close>

datatype log_line =
    Startup_tick string int
  | Tick_line string
  | Error_getting_tasks string error "instant option"
  | Exiting string duration "instant option"

text \<open>
  What one run of \<open>Go\<close> does, in program order: every call that leaves the function
  and its return.
\<close>

datatype event =
    Sleep duration
  | Printf log_line
  | Call_Retrieve
  | Return_Retrieve "error option"
  | Call_Failure instant
  | Call_Success instant
  | New_Ticker duration
  | Call_ShouldExit instant bool
  | Return_Go
  | Panic

text \<open>
  \<open>Starting\<close>: before the ticker exists. \<open>Polling\<close>: blocked on the ticker's channel.
  \<open>Exited\<close>: \<open>Go\<close> has returned. \<open>Panicked\<close>: \<open>time.NewTicker\<close> was given a
  duration that is not positive.
\<close>

datatype phase = Starting | Polling | Exited | Panicked

record run =
  phase :: phase
  box :: FailBox
  trace :: "event list"

text \<open>
  \<open>offset * int(time.Second)\<close> is a product of Go \<open>int\<close>s, 64 bits wide on the
  platforms the exporter is built for, converted to a \<open>time.Duration\<close>.
\<close>

definition sleep_duration :: "int \<Rightarrow> duration" where
  "sleep_duration offset = sint (word_of_int offset * word_of_int Second :: 64 word)"

text \<open>
  Lines 147 to 158 of \<open>main.go\<close>: the random pause, the first poll and the ticker.
  \<open>offset\<close> is what \<open>rand.Intn(15)\<close> returned, \<open>err\<close> what the first \<open>Retrieve\<close>
  returned and \<open>now\<close> the instant the window read when the result was recorded.
\<close>

definition startup :: "monitorLooper \<Rightarrow> int \<Rightarrow> error option \<Rightarrow> instant \<Rightarrow> run" where
  "startup rc offset err now =
     (let pre = [Sleep (sleep_duration offset),
                 Printf (Startup_tick (Name (Chk rc)) offset),
                 Call_Retrieve, Return_Retrieve err];
          (fb, rec) =
            (case err of
               Some e \<Rightarrow>
                 (Failure now (FailBox rc),
                  [Printf (Error_getting_tasks (Name (Chk rc)) e (LastSuccess (FailBox rc))),
                   Call_Failure now])
             | None \<Rightarrow> (Success now (FailBox rc), [Call_Success now]))
      in if Interval rc \<le> 0
         then \<lparr>phase = Panicked, box = fb, trace = pre @ rec @ [Panic]\<rparr>
         else \<lparr>phase = Polling, box = fb, trace = pre @ rec @ [New_Ticker (Interval rc)]\<rparr>)"

text \<open>
  One tick: \<open>err\<close> is what \<open>Retrieve\<close> returned, \<open>t_record\<close> the instant read by
  \<open>Success\<close> or \<open>Failure\<close>, \<open>t_check\<close> the instant read by \<open>ShouldExit\<close>.
\<close>

record tick_input =
  err :: "error option"
  t_record :: instant
  t_check :: instant

text \<open>Lines 160 to 174 of \<open>main.go\<close>: the body of the loop over the ticker's channel.\<close>

definition tick :: "monitorLooper \<Rightarrow> tick_input \<Rightarrow> run \<Rightarrow> run" where
  "tick rc i r =
     (let pre = [Printf (Tick_line (Name (Chk rc))), Call_Retrieve, Return_Retrieve (err i)];
          (fb, rec) =
            (case err i of
               Some e \<Rightarrow>
                 (Failure (t_record i) (box r),
                  [Printf (Error_getting_tasks (Name (Chk rc)) e (LastSuccess (box r))),
                   Call_Failure (t_record i)])
             | None \<Rightarrow> (Success (t_record i) (box r), [Call_Success (t_record i)]))
      in if ShouldExit (t_check i) fb
         then \<lparr>phase = Exited, box = fb,
               trace = trace r @ pre @ rec @
                 [Call_ShouldExit (t_check i) True,
                  Printf (Exiting (Name (Chk rc)) failAfter (LastSuccess fb)),
                  Return_Go]\<rparr>
         else \<lparr>phase = Polling, box = fb,
               trace = trace r @ pre @ rec @ [Call_ShouldExit (t_check i) False]\<rparr>)"

text \<open>
  The loop takes the ticks one by one for as long as it is polling; after \<open>Go\<close> has
  returned nobody reads the ticker. The list is the ticks delivered so far: a run that
  is still \<open>Polling\<close> at its end is a loop that has not exited.
\<close>

fun ticks :: "monitorLooper \<Rightarrow> tick_input list \<Rightarrow> run \<Rightarrow> run" where
  "ticks rc [] r = r"
| "ticks rc (i # is) r = (if phase r = Polling then ticks rc is (tick rc i r) else r)"

definition Go :: "monitorLooper \<Rightarrow> int \<Rightarrow> error option \<Rightarrow> instant \<Rightarrow> tick_input list \<Rightarrow> run" where
  "Go rc offset err0 now0 is = ticks rc is (startup rc offset err0 now0)"

section \<open>Observations on a trace\<close>

text \<open>The results of the \<open>ShouldExit\<close> calls of a trace, in order.\<close>

fun exit_decisions :: "event list \<Rightarrow> bool list" where
  "exit_decisions [] = []"
| "exit_decisions (Call_ShouldExit t b # es) = b # exit_decisions es"
| "exit_decisions (e # es) = exit_decisions es"

text \<open>The number of \<open>Retrieve\<close> calls of a trace.\<close>

fun retrieve_calls :: "event list \<Rightarrow> nat" where
  "retrieve_calls [] = 0"
| "retrieve_calls (Call_Retrieve # es) = Suc (retrieve_calls es)"
| "retrieve_calls (e # es) = retrieve_calls es"





text \<open>
  Whether a \<open>Retrieve\<close> call is outstanding. A call made while one is outstanding, or
  a return with none outstanding, leads to \<open>Overlapped\<close>, which is never left.
\<close>

datatype calling = Idle | Outstanding | Overlapped

fun observe :: "calling \<Rightarrow> event \<Rightarrow> calling" where
  "observe Idle e =
     (case e of Call_Retrieve \<Rightarrow> Outstanding | Return_Retrieve x \<Rightarrow> Overlapped | _ \<Rightarrow> Idle)"
| "observe Outstanding e =
     (case e of Call_Retrieve \<Rightarrow> Overlapped | Return_Retrieve x \<Rightarrow> Idle | _ \<Rightarrow> Outstanding)"
| "observe Overlapped e = Overlapped"

section \<open>The supervisor (\<open>main\<close>)\<close>

text \<open>
  The four loopers of \<open>main\<close>, named after its variables \<open>rc\<close>, \<open>rs\<close>, \<open>tm\<close> and
  \<open>atm\<close>, and the string each goroutine sends on \<open>monitorFailed\<close> once its \<open>Go\<close>
  has returned (lines 53, 63, 73 and 83).
\<close>

datatype mid = RC | RS | TM | ATM

fun published :: "mid \<Rightarrow> string" where
  "published RC = ''ReplicationProgressMonitor''"
| "published RS = ''ReplicationStatusMonitor''"
| "published TM = ''ThroughputMonitor''"
| "published ATM = ''ActiveTasksMonitor''"

text \<open>
  What \<open>main\<close> does not fix: the instant at which each \<open>NewFailBox\<close> call read the
  clock, and what \<open>Name()\<close> of each monitor of package \<open>monitors\<close> returns.
\<close>

record env =
  made_at :: "mid \<Rightarrow> instant"
  name_of :: "mid \<Rightarrow> string"

text \<open>Lines 46 to 50, 56 to 60, 66 to 70 and 76 to 80 of \<open>main.go\<close>.\<close>

fun interval_of :: "mid \<Rightarrow> duration" where
  "interval_of RC = 5 * Second"
| "interval_of RS = 10 * Minute"
| "interval_of TM = 5 * Second"
| "interval_of ATM = 5 * Second"

definition looper :: "env \<Rightarrow> mid \<Rightarrow> monitorLooper" where
  "looper e m =
     \<lparr>Interval = interval_of m,
      FailBox = NewFailBox (made_at e m) failAfter,
      Chk = \<lparr>Name = name_of e m\<rparr>\<rparr>"

text \<open>
  The process: the run of each looper's goroutine, whether its send on
  \<open>monitorFailed\<close> has completed, what \<open>main\<close> has received from the channel, and
  how the process ended, if it has. \<open>Monitor_died m\<close> is \<open>main\<close> returning after the
  line \<open>A monitor died: m! Exiting.\<close>; \<open>Fatal\<close> is \<open>log.Fatal\<close> in the goroutine of
  the HTTP server; \<open>Crashed\<close> is a panic in a goroutine.
\<close>

datatype ending = Monitor_died string | Fatal error | Crashed

record process =
  routines :: "mid \<Rightarrow> run"
  sent :: "mid \<Rightarrow> bool"
  received :: "string option"
  ended :: "ending option"

definition boot :: "env \<Rightarrow> process" where
  "boot e =
     \<lparr>routines = (\<lambda>m. \<lparr>phase = Starting, box = FailBox (looper e m), trace = []\<rparr>),
      sent = (\<lambda>m. False),
      received = None,
      ended = None\<rparr>"

text \<open>
  What can happen next. \<open>Start m\<close>: the goroutine of \<open>m\<close> runs \<open>Go\<close> up to its
  ticker. \<open>Fire m\<close>: the ticker of \<open>m\<close> delivers and the loop body runs. \<open>Hand_over m\<close>:
  the send of the goroutine of \<open>m\<close> meets the receive of \<open>main\<close> (line 97; the channel
  is unbuffered). \<open>Main_returns\<close>: lines 98 to 100. \<open>Server_returns\<close>:
  \<open>ListenAndServe\<close> returns its error to \<open>log.Fatal\<close> (line 92).
\<close>

datatype action =
    Start mid int "error option" instant
  | Fire mid tick_input
  | Hand_over mid
  | Main_returns
  | Server_returns error

text \<open>One step of the process; \<open>None\<close> when the action cannot happen in that state.\<close>

fun step :: "env \<Rightarrow> process \<Rightarrow> action \<Rightarrow> process option" where
  "step e p (Start m offset err0 now0) =
     (if ended p = None \<and> phase (routines p m) = Starting
      then (let r = startup (looper e m) offset err0 now0
            in Some (p\<lparr>routines := (routines p)(m := r),
                       ended := (if phase r = Panicked then Some Crashed else None)\<rparr>))
      else None)"
| "step e p (Fire m i) =
     (if ended p = None \<and> phase (routines p m) = Polling
      then Some (p\<lparr>routines := (routines p)(m := tick (looper e m) i (routines p m))\<rparr>)
      else None)"
| "step e p (Hand_over m) =
     (if ended p = None \<and> phase (routines p m) = Exited \<and> \<not> sent p m \<and> received p = None
      then Some (p\<lparr>sent := (sent p)(m := True), received := Some (published m)\<rparr>)
      else None)"
| "step e p Main_returns =
     (if ended p = None
      then (case received p of
              None \<Rightarrow> None
            | Some s \<Rightarrow> Some (p\<lparr>ended := Some (Monitor_died s)\<rparr>))
      else None)"
| "step e p (Server_returns x) =
     (if ended p = None then Some (p\<lparr>ended := Some (Fatal x)\<rparr>) else None)"

fun exec :: "env \<Rightarrow> process \<Rightarrow> action list \<Rightarrow> process option" where
  "exec e p [] = Some p"
| "exec e p (a # as) = (case step e p a of None \<Rightarrow> None | Some q \<Rightarrow> exec e q as)"



text \<open>
  An environment for the examples: every window made at the epoch, every monitor
  reporting the name \<open>main\<close> publishes for it.
\<close>

definition at_epoch :: env where
  "at_epoch = \<lparr>made_at = (\<lambda>m. 0), name_of = published\<rparr>"

section \<open>Properties of the failure window\<close>

lemma feed_append: "feed fb (cs @ ds) = feed (feed fb cs) ds"
  by (induction cs arbitrary: fb) simp_all

lemma apply_call_fixed:
  "created (apply_call fb c) = created fb" "threshold (apply_call fb c) = threshold fb"
  by (cases c; simp add: Success_def Failure_def)+

lemma feed_fixed:
  "created (feed fb cs) = created fb" "threshold (feed fb cs) = threshold fb"
  by (induction cs arbitrary: fb) (simp_all add: apply_call_fixed)

lemma lastSuccess_feed:
  "lastSuccess (feed fb cs) =
     (case last_success_of cs of None \<Rightarrow> lastSuccess fb | Some t \<Rightarrow> Some t)"
proof (induction cs arbitrary: fb)
  case Nil
  show ?case by simp
next
  case (Cons c cs)
  show ?case
    by (cases c) (simp_all add: Cons.IH Success_def Failure_def split: option.splits)
qed

lemma failures_keep_lastSuccess:
  "list_all is_failure cs \<Longrightarrow> last_success_of cs = None"
proof (induction cs)
  case Nil
  show ?case by simp
next
  case (Cons c cs)
  then show ?case by (cases c) simp_all
qed

lemma ShouldExit_mono:
  "ShouldExit now fb \<Longrightarrow> now \<le> now' \<Longrightarrow> ShouldExit now' fb"
  by (auto simp: ShouldExit_def split: option.splits)

lemma ShouldExit_feed:
  "ShouldExit now (feed fb cs) \<longleftrightarrow>
     (case last_success_of cs of
        Some t \<Rightarrow> now - t > threshold fb
      | None \<Rightarrow> ShouldExit now fb)"
  by (simp add: ShouldExit_def lastSuccess_feed feed_fixed split: option.splits)

text \<open>
  C1. For every sequence of recordSuccess and recordFailure calls fed to a window created
  at \<open>t0\<close> with threshold \<open>d\<close>, shouldExit at \<open>now\<close> is true exactly when the last
  recordSuccess of the sequence lies more than \<open>d\<close> before \<open>now\<close> or, no success having
  been recorded, the creation instant does. Once true it stays true at every later
  instant for as long as only failures are recorded.
\<close>

theorem shouldExit_iff_elapsed_exceeds:
  "(ShouldExit now (feed (NewFailBox t0 d) cs) \<longleftrightarrow>
      (case last_success_of cs of
         Some t \<Rightarrow> now - t > d
       | None \<Rightarrow> now - t0 > d))
   \<and> (ShouldExit now (feed (NewFailBox t0 d) cs) \<and> now \<le> now' \<and> list_all is_failure fs
        \<longrightarrow> ShouldExit now' (feed (NewFailBox t0 d) (cs @ fs)))"
proof (intro conjI impI)
  show "ShouldExit now (feed (NewFailBox t0 d) cs) \<longleftrightarrow>
      (case last_success_of cs of Some t \<Rightarrow> now - t > d | None \<Rightarrow> now - t0 > d)"
    unfolding ShouldExit_feed
    by (simp add: ShouldExit_def NewFailBox_def split: option.splits)
next
  assume a: "ShouldExit now (feed (NewFailBox t0 d) cs) \<and> now \<le> now' \<and> list_all is_failure fs"
  then have "ShouldExit now (feed (feed (NewFailBox t0 d) cs) fs)"
    by (simp add: ShouldExit_feed [of now _ fs] failures_keep_lastSuccess)
  then show "ShouldExit now' (feed (NewFailBox t0 d) (cs @ fs))"
    using a ShouldExit_mono [of now _ now'] by (simp add: feed_append)
qed

theorem shouldExit_iff_elapsed_exceeds_witness:
  "ShouldExit (400 * Second)
     (feed (NewFailBox 0 failAfter) [RecordSuccess (20 * Second), RecordFailure (25 * Second)])
   \<and> 400 * Second \<le> 900 * Second
   \<and> list_all is_failure [RecordFailure (405 * Second), RecordFailure (410 * Second)]
   \<and> ShouldExit (900 * Second)
       (feed (NewFailBox 0 failAfter)
          ([RecordSuccess (20 * Second), RecordFailure (25 * Second)]
           @ [RecordFailure (405 * Second), RecordFailure (410 * Second)]))
   \<and> \<not> ShouldExit (300 * Second)
       (feed (NewFailBox 0 failAfter) [RecordSuccess (20 * Second), RecordFailure (25 * Second)])"
proof -
  have h: "ShouldExit (400 * Second)
       (feed (NewFailBox 0 failAfter) [RecordSuccess (20 * Second), RecordFailure (25 * Second)])
     \<and> 400 * Second \<le> 900 * Second
     \<and> list_all is_failure [RecordFailure (405 * Second), RecordFailure (410 * Second)]"
    by (simp add: ShouldExit_def NewFailBox_def Success_def Failure_def
          failAfter_def Minute_def Second_def)
  have n: "\<not> ShouldExit (300 * Second)
       (feed (NewFailBox 0 failAfter) [RecordSuccess (20 * Second), RecordFailure (25 * Second)])"
    by (simp add: ShouldExit_def NewFailBox_def Success_def Failure_def
          failAfter_def Minute_def Second_def)
  show ?thesis
    using h n
      shouldExit_iff_elapsed_exceeds [of "400 * Second" 0 failAfter
        "[RecordSuccess (20 * Second), RecordFailure (25 * Second)]" "900 * Second"
        "[RecordFailure (405 * Second), RecordFailure (410 * Second)]"]
    by blast
qed

text \<open>
  C4. After any number of consecutive recordFailure calls, a single recordSuccess at
  \<open>now\<close> makes shouldExit at \<open>now\<close> false for every positive threshold, whatever it
  reported before; a tick of the loop whose \<open>Retrieve\<close> succeeds, and which reads that
  same instant twice, therefore leaves the loop polling.
\<close>

theorem success_resets_exit_clock:
  assumes "0 < threshold fb" and "list_all is_failure fs"
  shows "\<not> ShouldExit now (feed fb (fs @ [RecordSuccess now]))
       \<and> (box r = feed fb fs \<and> err i = None \<and> t_record i = now \<and> t_check i = now
            \<longrightarrow> phase (tick rc i r) = Polling
              \<and> box (tick rc i r) = feed fb (fs @ [RecordSuccess now]))"
  using assms
  by (simp add: feed_append ShouldExit_def Success_def feed_fixed tick_def)

theorem success_resets_exit_clock_witness:
  "0 < threshold (NewFailBox 0 failAfter)
   \<and> list_all is_failure [RecordFailure (100 * Second), RecordFailure (400 * Second)]
   \<and> ShouldExit (400 * Second)
       (feed (NewFailBox 0 failAfter) [RecordFailure (100 * Second), RecordFailure (400 * Second)])
   \<and> \<not> ShouldExit (400 * Second)
       (feed (NewFailBox 0 failAfter)
          ([RecordFailure (100 * Second), RecordFailure (400 * Second)]
           @ [RecordSuccess (400 * Second)]))"
proof -
  have h1: "0 < threshold (NewFailBox 0 failAfter)"
    by (simp add: NewFailBox_def failAfter_def Minute_def Second_def)
  have h2: "list_all is_failure [RecordFailure (100 * Second), RecordFailure (400 * Second)]"
    by simp
  have before: "ShouldExit (400 * Second)
       (feed (NewFailBox 0 failAfter) [RecordFailure (100 * Second), RecordFailure (400 * Second)])"
    by (simp add: ShouldExit_def NewFailBox_def Failure_def failAfter_def Minute_def Second_def)
  show ?thesis
    using h1 h2 before success_resets_exit_clock [OF h1 h2, of "400 * Second"]
    by blast
qed



section \<open>Properties of the polling loop\<close>




















lemma observe_Overlapped: "foldl observe Overlapped es = Overlapped"
  by (induction es) simp_all

lemma observe_startup: "foldl observe Idle (trace (startup rc offset e now)) = Idle"
  by (simp add: startup_def Let_def split: option.splits)

lemma observe_tick:
  "foldl observe Idle (trace r) = Idle \<Longrightarrow> foldl observe Idle (trace (tick rc i r)) = Idle"
  by (simp add: tick_def Let_def split: option.splits)

lemma observe_ticks:
  "foldl observe Idle (trace r) = Idle \<Longrightarrow> foldl observe Idle (trace (ticks rc is r)) = Idle"
  by (induction "is" arbitrary: r) (simp_all add: observe_tick)

text \<open>
  C8. Within one run of \<open>Go\<close> the \<open>Retrieve\<close> calls are strictly sequential: at no
  point of the trace is a \<open>Retrieve\<close> called while an earlier one has not returned, and
  at the end none is outstanding.
\<close>

theorem retrieves_never_overlap:
  "foldl observe Idle (trace (Go rc offset err0 now0 is)) = Idle
   \<and> foldl observe Idle (take n (trace (Go rc offset err0 now0 is))) \<noteq> Overlapped"
proof -
  let ?t = "trace (Go rc offset err0 now0 is)"
  have a: "foldl observe Idle ?t = Idle"
    by (simp add: Go_def observe_ticks observe_startup)
  have "foldl observe (foldl observe Idle (take n ?t)) (drop n ?t) = Idle"
    using a by (simp add: foldl_append [symmetric])
  then have "foldl observe Idle (take n ?t) \<noteq> Overlapped"
    using observe_Overlapped [of "drop n ?t"] by auto
  with a show ?thesis by simp
qed


section \<open>The startup delay and the first poll\<close>




text \<open>
  C3, as the claim states it, fails: the window of the throughput monitor is made at
  the epoch, the first poll fails and is recorded 301 seconds later, past the five
  minutes of \<open>failAfter\<close>. \<open>ShouldExit\<close> at that instant is true, yet the run is
  polling, not exited, and no \<open>ShouldExit\<close> was evaluated; the ticker-driven poll
  that follows succeeds, and the loop is still polling after it.
\<close>

theorem first_poll_exit_counterexample:
  "ShouldExit (301 * Second)
     (box (Go (looper at_epoch TM) 14 (Some (Error ''timeout'')) (301 * Second) []))
   \<and> phase (Go (looper at_epoch TM) 14 (Some (Error ''timeout'')) (301 * Second) []) = Polling
   \<and> exit_decisions
        (trace (Go (looper at_epoch TM) 14 (Some (Error ''timeout'')) (301 * Second) [])) = []
   \<and> phase (Go (looper at_epoch TM) 14 (Some (Error ''timeout'')) (301 * Second)
        [\<lparr>err = None, t_record = 306 * Second, t_check = 306 * Second\<rparr>]) = Polling
   \<and> retrieve_calls
        (trace (Go (looper at_epoch TM) 14 (Some (Error ''timeout'')) (301 * Second)
           [\<lparr>err = None, t_record = 306 * Second, t_check = 306 * Second\<rparr>])) = 2"
  by (simp add: Go_def startup_def tick_def looper_def at_epoch_def NewFailBox_def Failure_def
        Success_def ShouldExit_def failAfter_def Minute_def Second_def LastSuccess_def)

text \<open>
  C3, amended. The first poll is recorded as a ticker-driven one is (\<open>Success\<close> after
  nil, the error line and \<open>Failure\<close> after an error), but \<open>ShouldExit\<close> is not
  evaluated after it and \<open>Go\<close> does not return there: the run goes on to make its
  ticker, and the first \<open>ShouldExit\<close> is the one of the first ticker-driven poll.
\<close>

theorem first_poll_only_records:
  "box (Go rc offset err0 now0 [])
     = (case err0 of None \<Rightarrow> Success now0 (FailBox rc) | Some x \<Rightarrow> Failure now0 (FailBox rc))
   \<and> trace (Go rc offset err0 now0 [])
       = [Sleep (sleep_duration offset), Printf (Startup_tick (Name (Chk rc)) offset),
          Call_Retrieve, Return_Retrieve err0]
         @ (case err0 of
              None \<Rightarrow> [Call_Success now0]
            | Some x \<Rightarrow>
                [Printf (Error_getting_tasks (Name (Chk rc)) x (LastSuccess (FailBox rc))),
                 Call_Failure now0])
         @ [if Interval rc \<le> 0 then Panic else New_Ticker (Interval rc)]
   \<and> phase (Go rc offset err0 now0 []) = (if Interval rc \<le> 0 then Panicked else Polling)
   \<and> exit_decisions (trace (Go rc offset err0 now0 [])) = []
   \<and> Go rc offset err0 now0 (i # is)
       = (if Interval rc \<le> 0 then Go rc offset err0 now0 []
          else ticks rc is (tick rc i (Go rc offset err0 now0 [])))"
  by (simp add: Go_def startup_def Let_def split: option.splits)

section \<open>Properties of the supervisor\<close>


lemma exec_append:
  "exec e p (as @ bs) = (case exec e p as of None \<Rightarrow> None | Some q \<Rightarrow> exec e q bs)"
  by (induction as arbitrary: p) (simp_all split: option.splits)
























text \<open>
  C10. While the process runs, \<open>ListenAndServe\<close> returning ends it through
  \<open>log.Fatal\<close>, whatever the loopers are doing and with no name received by \<open>main\<close>:
  the end of the process does not need a source past its failure threshold.
\<close>

theorem server_failure_ends_process:
  assumes "exec e (boot e) as = Some p" and "ended p = None"
  shows "step e p (Server_returns x) = Some (p\<lparr>ended := Some (Fatal x)\<rparr>)
       \<and> exec e (boot e) (as @ [Server_returns x]) = Some (p\<lparr>ended := Some (Fatal x)\<rparr>)"
  using assms by (simp add: exec_append)

theorem server_failure_ends_process_witness:
  "exec at_epoch (boot at_epoch) [] = Some (boot at_epoch)
   \<and> ended (boot at_epoch) = None
   \<and> received (boot at_epoch) = None
   \<and> phase (routines (boot at_epoch) RC) = Starting
   \<and> phase (routines (boot at_epoch) RS) = Starting
   \<and> phase (routines (boot at_epoch) TM) = Starting
   \<and> phase (routines (boot at_epoch) ATM) = Starting
   \<and> exec at_epoch (boot at_epoch) ([] @ [Server_returns (Error ''address already in use'')])
       = Some ((boot at_epoch)\<lparr>ended := Some (Fatal (Error ''address already in use''))\<rparr>)"
proof -
  have h1: "exec at_epoch (boot at_epoch) [] = Some (boot at_epoch)" by simp
  have h2: "ended (boot at_epoch) = None" by (simp add: boot_def)
  show ?thesis
    using h1 h2 server_failure_ends_process [OF h1 h2]
    by (simp add: boot_def)
qed

text \<open>
  C9, at the replication status monitor: \<open>main\<close> gives it a poll interval of ten
  minutes and the common threshold \<open>failAfter\<close> of five, so the threshold is below
  the interval; after a successful first poll, a single failed poll at the first tick,
  ten minutes later, makes \<open>Go\<close> return.
\<close>

theorem status_monitor_threshold_below_interval:
  "Interval (looper at_epoch RS) = 10 * Minute
   \<and> threshold (FailBox (looper at_epoch RS)) = 5 * Minute
   \<and> threshold (FailBox (looper at_epoch RS)) < Interval (looper at_epoch RS)
   \<and> phase (Go (looper at_epoch RS) 0 None 0
        [\<lparr>err = Some (Error ''timeout''), t_record = 10 * Minute, t_check = 10 * Minute\<rparr>])
       = Exited"
  by (simp add: Go_def startup_def tick_def looper_def at_epoch_def NewFailBox_def Failure_def
        Success_def ShouldExit_def failAfter_def Minute_def Second_def LastSuccess_def
        sleep_duration_def)


end
